theory Spec2Isabelle
  imports Main "HOL-Library.Sublist" "HOL-Library.Word"
begin

section \<open>Strings: semaphore names and message formatting\<close>

text \<open>
  Identifiers are byte strings (\<open>string\<close>). \<open>str_replace old new s\<close> is Python's
  \<^verbatim>\<open>s.replace(old, new)\<close>: non-overlapping occurrences of \<open>old\<close> are replaced from
  left to right; an empty \<open>old\<close> matches before every character and at the end.
\<close>

function str_replace :: "string \<Rightarrow> string \<Rightarrow> string \<Rightarrow> string" where
  "str_replace old new [] = (if old = [] then new else [])"
| "str_replace old new (c # cs) =
     (if old = [] then new @ concat (map (\<lambda>x. x # new) (c # cs))
      else if prefix old (c # cs)
           then new @ str_replace old new (drop (length old) (c # cs))
           else c # str_replace old new cs)"
  by pat_completeness auto
termination
  by (relation "measure (\<lambda>(old, new, s). length s)") auto

text \<open>\<^verbatim>\<open>get_semaphore_name\<close> of lock.py: \<^verbatim>\<open>str('/' + resource_uri.replace('/', '-'))\<close>.\<close>

definition get_semaphore_name :: "string \<Rightarrow> string" where
  "get_semaphore_name resource_uri = ''/'' @ str_replace ''/'' ''-'' resource_uri"

text \<open>The name computed inline by \<^verbatim>\<open>get_lock\<close> of base.py (line 38).\<close>

definition get_lock_sem_name :: "string \<Rightarrow> string" where
  "get_lock_sem_name base_name = ''/'' @ str_replace ''/'' ''-'' base_name"

text \<open>The mapping in the words of the specification: a leading \<open>/\<close>, then the identifier
  with every \<open>/\<close> replaced by \<open>-\<close>.\<close>

definition spec_lock_name :: "string \<Rightarrow> string" where
  "spec_lock_name u = CHR ''/'' # map (\<lambda>c. if c = CHR ''/'' then CHR ''-'' else c) u"

text \<open>Decimal rendering of a Python integer, as \<^verbatim>\<open>str.format\<close> prints a thread ident.\<close>

definition digit_char :: "nat \<Rightarrow> char" where
  "digit_char d = ''0123456789'' ! (d mod 10)"

function str_nat :: "nat \<Rightarrow> string" where
  "str_nat n = (if n < 10 then [digit_char n] else str_nat (n div 10) @ [digit_char (n mod 10)])"
  by pat_completeness auto
termination
  by (relation "measure (\<lambda>n. n)") auto

definition str_int :: "int \<Rightarrow> string" where
  "str_int i = (if i < 0 then CHR ''-'' # str_nat (nat (- i)) else str_nat (nat i))"

text \<open>
  Reading a decimal numeral, written from the notation and not from the rendering above:
  a digit is a character with code 48 to 57, a numeral is a non-empty row of digits read
  from the left in base ten, with an optional leading minus sign.
\<close>

definition digit_value :: "char \<Rightarrow> nat option" where
  "digit_value c =
     (let k = (of_char c :: nat) in if 48 \<le> k \<and> k \<le> 57 then Some (k - 48) else None)"

fun read_digits :: "nat \<Rightarrow> string \<Rightarrow> nat option" where
  "read_digits acc [] = Some acc"
| "read_digits acc (c # cs) =
     (case digit_value c of None \<Rightarrow> None | Some d \<Rightarrow> read_digits (10 * acc + d) cs)"

definition read_nat :: "string \<Rightarrow> nat option" where
  "read_nat s = (if s = [] then None else read_digits 0 s)"

definition read_int :: "string \<Rightarrow> int option" where
  "read_int s =
     (case s of
        [] \<Rightarrow> None
      | c # cs \<Rightarrow>
          if c = CHR ''-'' then map_option (\<lambda>n. - int n) (read_nat cs)
          else map_option int (read_nat s))"

section \<open>The machine: named semaphores, resources, holder records\<close>

text \<open>
  Exceptions of the operations. \<open>BusyError\<close> is \<^verbatim>\<open>posix_ipc.BusyError\<close>,
  \<open>ExistentialError\<close> is \<^verbatim>\<open>posix_ipc.ExistentialError\<close>; \<open>ValueError\<close> is what the
  constructor of a semaphore raises for a name the OS rejects, \<open>OSError\<close> what a release
  raises when the value cannot grow and what an open raises at a system limit (the
  specification's OSResourceExhaustedError), \<open>PermissionsError\<close> is
  \<^verbatim>\<open>posix_ipc.PermissionsError\<close>; \<open>TypeError\<close> is the error that \<^verbatim>\<open>lock\<close> raises for a
  resource that no longer exists (the specification calls it StaleResourceError),
  \<open>OtherError\<close> is any other exception a protected body raises.
\<close>

datatype exn =
    BusyError string
  | TypeError string
  | ExistentialError string
  | ValueError
  | OSError
  | PermissionsError
  | OtherError string

text \<open>A resource object: its identity as a Python object and its URI.\<close>

record resource =
  oid :: nat
  uri :: string

text \<open>The primitive effects, logged in program order.\<close>

datatype event =
    Opened string nat
  | Acquired nat
  | Released nat
  | Closed nat
  | Unlinked string
  | HolderSet nat int
  | HolderCleared nat
  | MarkedDeleted nat

text \<open>What can go wrong in the OS when a semaphore is opened, the name apart.\<close>

datatype os_fault = SystemLimit | PermissionDenied

definition fault_error :: "os_fault \<Rightarrow> exn" where
  "fault_error f = (case f of SystemLimit \<Rightarrow> OSError | PermissionDenied \<Rightarrow> PermissionsError)"

text \<open>
  The value of a semaphore ranges from 0 to \<open>SEM_VALUE_MAX\<close>, which is \<open>2^31 - 1\<close> on Linux:
  a word of 31 bits holds exactly these values.
\<close>

type_synonym sem_value = "31 word"

definition SEM_VALUE_MAX :: sem_value where
  "SEM_VALUE_MAX = 2147483647"

text \<open>
  The state the operations act on.
  \<^item> \<open>sem_names\<close>: the OS name space of semaphores, a name bound to a semaphore object;
  \<^item> \<open>sem_count\<close>: the value of each semaphore object; \<open>sem_next\<close>: the next fresh object;
  \<^item> \<open>handles\<close>: the descriptors this process holds open, one entry per open;
  \<^item> \<open>open_faults\<close>: what the OS answers to the opens to come, one entry per open: a
    fault (a system limit is reached, a permission is missing) or none; when the list
    is used up there are no more faults;
  \<^item> \<open>posts\<close>: what the other execution contexts do while this one waits on a semaphore
    of value 0: the head says whether some context posts the semaphore before the wait
    times out;
  \<^item> \<open>locking_thread_id\<close>: the attribute \<^verbatim>\<open>__locking_thread_id\<close> of each resource object
    (\<open>None\<close> is the class default);
  \<^item> \<open>state\<close>: the triples of each resource's graph; \<open>marked_deleted\<close>: the objects that
    \<^verbatim>\<open>_mark_as_deleted\<close> was called on;
  \<^item> \<open>trace\<close>: the log of effects.
\<close>

record world =
  sem_names :: "string \<Rightarrow> nat option"
  sem_count :: "nat \<Rightarrow> sem_value"
  sem_next :: nat
  handles :: "nat list"
  open_faults :: "os_fault option list"
  posts :: "bool list"
  locking_thread_id :: "nat \<Rightarrow> int option"
  state :: "nat \<Rightarrow> (string \<times> string \<times> string) list"
  marked_deleted :: "nat set"
  trace :: "event list"

type_synonym 'a action = "world \<Rightarrow> (exn + 'a) \<times> world"

definition log :: "event \<Rightarrow> world \<Rightarrow> world" where
  "log e w = w\<lparr>trace := trace w @ [e]\<rparr>"

subsection \<open>The semaphore primitives of posix_ipc\<close>

text \<open>
  The names the OS accepts, after sem_overview(7): at most 251 characters, an initial
  slash followed by one or more characters, none of which is a slash.
\<close>

definition SEM_NAME_MAX :: nat where
  "SEM_NAME_MAX = 251"

definition valid_sem_name :: "string \<Rightarrow> bool" where
  "valid_sem_name name =
     (case name of
        [] \<Rightarrow> False
      | c # cs \<Rightarrow>
          c = CHR ''/'' \<and> cs \<noteq> [] \<and> CHR ''/'' \<notin> set cs \<and> length name \<le> SEM_NAME_MAX)"

text \<open>The answer of the OS to the next open.\<close>

definition next_fault :: "world \<Rightarrow> os_fault option \<times> world" where
  "next_fault w =
     (case open_faults w of [] \<Rightarrow> (None, w) | f # fs \<Rightarrow> (f, w\<lparr>open_faults := fs\<rparr>))"

text \<open>\<^verbatim>\<open>posix_ipc.Semaphore(name, flags=O_CREAT, initial_value=1)\<close>: for a name the OS
  rejects, \<open>ValueError\<close>; for a fault of the OS, its error; otherwise open the semaphore
  bound to the name, or create one of value 1 and bind it.\<close>

definition sem_open :: "string \<Rightarrow> nat action" where
  "sem_open name w =
     (if \<not> valid_sem_name name then (Inl ValueError, w)
      else
        (case next_fault w of
           (Some f, w0) \<Rightarrow> (Inl (fault_error f), w0)
         | (None, w0) \<Rightarrow>
             (case sem_names w0 name of
                Some s \<Rightarrow> (Inr s, log (Opened name s) (w0\<lparr>handles := s # handles w0\<rparr>))
              | None \<Rightarrow>
                  (let s = sem_next w0 in
                   (Inr s, log (Opened name s)
                         (w0\<lparr>sem_names := (sem_names w0)(name \<mapsto> s),
                            sem_count := (sem_count w0)(s := 1),
                            sem_next := Suc s,
                            handles := s # handles w0\<rparr>))))))"

text \<open>\<^verbatim>\<open>semaphore.acquire(timeout)\<close>: a positive value is decremented at once. At value 0
  the call waits, unless the timeout is 0; a post by another context during the wait is
  consumed by this acquisition (the value is 0 again), otherwise \<open>BusyError\<close>.\<close>

definition sem_acquire :: "nat \<Rightarrow> nat \<Rightarrow> unit action" where
  "sem_acquire timeout s w =
     (if 0 < sem_count w s
      then (Inr (), log (Acquired s) (w\<lparr>sem_count := (sem_count w)(s := sem_count w s - 1)\<rparr>))
      else if timeout = 0 then (Inl (BusyError ''Semaphore is busy''), w)
      else (case posts w of
              [] \<Rightarrow> (Inl (BusyError ''Semaphore is busy''), w)
            | p # ps \<Rightarrow>
                if p then (Inr (), log (Acquired s) (w\<lparr>posts := ps\<rparr>))
                else (Inl (BusyError ''Semaphore is busy''), w\<lparr>posts := ps\<rparr>)))"

text \<open>\<^verbatim>\<open>semaphore.release()\<close>: at \<open>SEM_VALUE_MAX\<close> the value cannot grow and the call
  raises \<open>OSError\<close>; below, the value grows by one.\<close>

definition sem_release :: "nat \<Rightarrow> unit action" where
  "sem_release s w =
     (if sem_count w s = SEM_VALUE_MAX then (Inl OSError, w)
      else (Inr (), log (Released s) (w\<lparr>sem_count := (sem_count w)(s := sem_count w s + 1)\<rparr>)))"

definition sem_close :: "nat \<Rightarrow> world \<Rightarrow> world" where
  "sem_close s w = log (Closed s) (w\<lparr>handles := remove1 s (handles w)\<rparr>)"

text \<open>\<^verbatim>\<open>semaphore.unlink()\<close> removes the name; the object lives on for the descriptors
  that are still open. Unlinking a name that is not bound raises.\<close>

definition sem_unlink :: "string \<Rightarrow> unit action" where
  "sem_unlink name w =
     (case sem_names w name of
        None \<Rightarrow> (Inl (ExistentialError ''No semaphore exists with the specified name''), w)
      | Some s \<Rightarrow> (Inr (), log (Unlinked name) (w\<lparr>sem_names := (sem_names w)(name := None)\<rparr>)))"

subsection \<open>lock.py\<close>

definition reset_lock :: "string \<Rightarrow> unit action" where
  "reset_lock resource_uri w =
     (case sem_open (get_semaphore_name resource_uri) w of
        (Inl e, w1) \<Rightarrow> (Inl e, w1)
      | (Inr semaphore, w1) \<Rightarrow>
          if sem_count w1 semaphore = 0
          then (case sem_release semaphore w1 of
                  (Inl e, w2) \<Rightarrow> (Inl e, w2)
                | (Inr _, w2) \<Rightarrow> (Inr (), sem_close semaphore w2))
          else (Inr (), w1))"

definition LOCK_DEFAULT_TIMEOUT :: nat where
  "LOCK_DEFAULT_TIMEOUT = 60"

definition get_semaphore :: "resource \<Rightarrow> nat action" where
  "get_semaphore self w = sem_open (get_semaphore_name (uri self)) w"

definition set_holder :: "resource \<Rightarrow> int \<Rightarrow> world \<Rightarrow> world" where
  "set_holder self tid w =
     log (HolderSet (oid self) tid)
       (w\<lparr>locking_thread_id := (locking_thread_id w)(oid self := Some tid)\<rparr>)"

definition clear_holder :: "resource \<Rightarrow> world \<Rightarrow> world" where
  "clear_holder self w =
     log (HolderCleared (oid self))
       (w\<lparr>locking_thread_id := (locking_thread_id w)(oid self := None)\<rparr>)"

text \<open>Modelled from the spec: \<^verbatim>\<open>_mark_as_deleted\<close> of rdfrest.local is not among the
  sources; the specification has it mark the resource as logically deleted in the
  caching layer. The mark is recorded per object.\<close>

definition mark_as_deleted :: "resource \<Rightarrow> world \<Rightarrow> world" where
  "mark_as_deleted resource w =
     log (MarkedDeleted (oid resource))
       (w\<lparr>marked_deleted := insert (oid resource) (marked_deleted w)\<rparr>)"

text \<open>The \<^verbatim>\<open>finally\<close> block of \<^verbatim>\<open>lock\<close>: the holder record is cleared, the semaphore
  released, the handle closed. A release that raises leaves the block at once: the handle
  stays open and the error takes the place of the result of the section.\<close>

definition lock_finally :: "resource \<Rightarrow> nat \<Rightarrow> (exn + 'a) \<times> world \<Rightarrow> (exn + 'a) \<times> world" where
  "lock_finally self semaphore rw =
     (case sem_release semaphore (clear_holder self (snd rw)) of
        (Inl e, w') \<Rightarrow> (Inl e, w')
      | (Inr _, w') \<Rightarrow> (fst rw, sem_close semaphore w'))"

text \<open>The text of the thread in the busy message: the holder when it is truthy.\<close>

definition holder_text :: "int option \<Rightarrow> string" where
  "holder_text h =
     (case h of None \<Rightarrow> ''Unknown'' | Some t \<Rightarrow> if t = 0 then ''Unknown'' else str_int t)"

definition busy_message :: "string \<Rightarrow> int option \<Rightarrow> string" where
  "busy_message res_uri h =
     ''The resource <'' @ res_uri @ ''> is locked by thread '' @ holder_text h @ ''.''"

text \<open>The \<^verbatim>\<open>except posix_ipc.BusyError\<close> clause of \<^verbatim>\<open>lock\<close>: it encloses the acquisition
  and the protected section, so it also sees a \<open>BusyError\<close> that leaves the section.\<close>

definition busy_handler :: "resource \<Rightarrow> (exn + 'a) \<times> world \<Rightarrow> (exn + 'a) \<times> world" where
  "busy_handler self rw =
     (case fst rw of
        Inl (BusyError m) \<Rightarrow>
          (Inl (BusyError (busy_message (uri self) (locking_thread_id (snd rw) (oid self)))), snd rw)
      | _ \<Rightarrow> rw)"

definition stale_message :: "string \<Rightarrow> string" where
  "stale_message u = ''The resource <'' @ u @ ''> no longer exists.''"

text \<open>The first statement of \<^verbatim>\<open>lock\<close>: \<^verbatim>\<open>if timeout is None: timeout = self.LOCK_DEFAULT_TIMEOUT\<close>.\<close>

definition timeout_or_default :: "nat option \<Rightarrow> nat" where
  "timeout_or_default timeout = (case timeout of None \<Rightarrow> LOCK_DEFAULT_TIMEOUT | Some t \<Rightarrow> t)"

text \<open>\<^verbatim>\<open>WithLockMixin.lock\<close>, run by thread \<open>tid\<close> around \<open>body\<close> (the block of the
  \<^verbatim>\<open>with\<close> statement). The semaphore is opened before the \<^verbatim>\<open>try\<close>: an error of the open
  goes to the caller as it is.\<close>

definition lock :: "int \<Rightarrow> resource \<Rightarrow> resource \<Rightarrow> nat option \<Rightarrow> 'a action \<Rightarrow> 'a action" where
  "lock tid self resource timeout body w =
     (let timeout' = timeout_or_default timeout in
      if locking_thread_id w (oid self) = Some tid then body w
      else
        (case get_semaphore self w of
           (Inl e, w1) \<Rightarrow> (Inl e, w1)
         | (Inr semaphore, w1) \<Rightarrow>
             busy_handler self
               (case sem_acquire timeout' semaphore w1 of
                  (Inl e, w2) \<Rightarrow> (Inl e, w2)
                | (Inr _, w2) \<Rightarrow>
                    (let w3 = set_holder self tid w2 in
                     lock_finally self semaphore
                       (if length (state w3 (oid resource)) = 0
                        then (Inl (TypeError (stale_message (uri resource))),
                              mark_as_deleted resource w3)
                        else body w3)))))"

text \<open>\<^verbatim>\<open>WithLockMixin.edit\<close>; \<open>super_edit_block\<close> is the inherited \<^verbatim>\<open>edit\<close> around the block
  of the caller's \<^verbatim>\<open>with\<close> statement.\<close>

definition edit :: "int \<Rightarrow> resource \<Rightarrow> 'a action \<Rightarrow> 'a action" where
  "edit tid self super_edit_block w = lock tid self self None super_edit_block w"

text \<open>\<^verbatim>\<open>WithLockMixin.delete\<close>; \<open>root\<close> is the result of \<^verbatim>\<open>self.get_root()\<close>,
  \<open>super_delete\<close> the inherited \<^verbatim>\<open>delete\<close>.\<close>

definition delete :: "int \<Rightarrow> resource \<Rightarrow> resource \<Rightarrow> 'a action \<Rightarrow> 'a action" where
  "delete tid self root super_delete w =
     lock tid root self None (lock tid self self None super_delete) w"

text \<open>\<^verbatim>\<open>WithLockMixin.ack_delete\<close>; \<open>super_ack_delete\<close> is the inherited method.\<close>

definition ack_delete :: "resource \<Rightarrow> unit action \<Rightarrow> unit action" where
  "ack_delete self super_ack_delete w =
     (case super_ack_delete w of
        (Inl e, w1) \<Rightarrow> (Inl e, w1)
      | (Inr _, w1) \<Rightarrow>
          (case get_semaphore self w1 of
             (Inl e, w2) \<Rightarrow> (Inl e, w2)
           | (Inr semaphore, w2) \<Rightarrow> sem_unlink (get_semaphore_name (uri self)) w2))"

subsection \<open>base.py\<close>

text \<open>\<^verbatim>\<open>get_lock\<close>: no holder record, no reentrancy; the handle stays open.\<close>

definition get_lock :: "string \<Rightarrow> nat \<Rightarrow> 'a action \<Rightarrow> 'a action" where
  "get_lock base_name timeout body w =
     (case sem_open (get_lock_sem_name base_name) w of
        (Inl e, w1) \<Rightarrow> (Inl e, w1)
      | (Inr base_semaphore, w1) \<Rightarrow>
          (case sem_acquire timeout base_semaphore w1 of
             (Inl e, w2) \<Rightarrow> (Inl e, w2)
           | (Inr _, w2) \<Rightarrow>
               (let (r, w3) = body w2 in
                case sem_release base_semaphore w3 of
                  (Inl e, w4) \<Rightarrow> (Inl e, w4)
                | (Inr _, w4) \<Rightarrow> (r, w4))))"

text \<open>\<^verbatim>\<open>Base.delete\<close>, with the default timeout of \<^verbatim>\<open>get_lock\<close>.\<close>

definition Base_delete :: "resource \<Rightarrow> 'a action \<Rightarrow> 'a action" where
  "Base_delete self super_delete w = get_lock (uri self) 30 super_delete w"

text \<open>
  The terms of the RDF vocabularies that \<^verbatim>\<open>Base.ack_delete\<close> uses (\<^verbatim>\<open>KTBS.hasBase\<close>,
  \<^verbatim>\<open>RDF.type\<close>, \<^verbatim>\<open>self.RDF_MAIN_TYPE\<close>); their modules are not among the sources, so
  they are parameters.
\<close>

record vocabulary =
  KTBS_hasBase :: string
  RDF_type :: string
  RDF_MAIN_TYPE :: string

text \<open>The block of \<^verbatim>\<open>Base.ack_delete\<close> under \<^verbatim>\<open>root.edit\<close>: two triples leave the graph
  that the root edits.\<close>

definition remove_base_triples :: "vocabulary \<Rightarrow> resource \<Rightarrow> resource \<Rightarrow> unit action" where
  "remove_base_triples voc self root w =
     (Inr (),
      w\<lparr>state := (state w)(oid root :=
           filter (\<lambda>t. t \<noteq> (uri root, KTBS_hasBase voc, uri self)
                      \<and> t \<noteq> (uri self, RDF_type voc, RDF_MAIN_TYPE voc))
                  (state w (oid root)))\<rparr>)"

text \<open>\<^verbatim>\<open>Base.ack_delete\<close>; \<open>super_ack_delete\<close> is the inherited method and \<open>root_edit\<close> the
  context manager \<^verbatim>\<open>root.edit(_trust=True)\<close>.\<close>

definition Base_ack_delete ::
  "vocabulary \<Rightarrow> resource \<Rightarrow> resource \<Rightarrow> (unit action \<Rightarrow> unit action) \<Rightarrow> unit action
     \<Rightarrow> unit action" where
  "Base_ack_delete voc self root root_edit super_ack_delete w =
     (case super_ack_delete w of
        (Inl e, w1) \<Rightarrow> (Inl e, w1)
      | (Inr _, w1) \<Rightarrow> root_edit (remove_base_triples voc self root) w1)"

section \<open>Concrete machines and bodies\<close>

text \<open>A machine on which no semaphore exists yet, no lock is held, the OS has no fault in
  store and every resource has a triple in its graph.\<close>

definition fresh_world :: world where
  "fresh_world =
     \<lparr>sem_names = Map.empty, sem_count = (\<lambda>s. 0), sem_next = 0, handles = [],
      open_faults = [], posts = [],
      locking_thread_id = (\<lambda>x. None),
      state = (\<lambda>x. [(''s'', ''p'', ''o'')]),
      marked_deleted = {}, trace = []\<rparr>"

text \<open>The semaphore of \<open>b/\<close> exists with value \<open>c\<close>.\<close>

definition world_with_count :: "sem_value \<Rightarrow> world" where
  "world_with_count c =
     fresh_world\<lparr>sem_names := [''/b-'' \<mapsto> 0], sem_count := (\<lambda>s. 0)(0 := c), sem_next := 1\<rparr>"

text \<open>Thread 42 holds the lock of object 1 (the base \<open>b/\<close>) and nobody posts.\<close>

definition held_world :: world where
  "held_world = (world_with_count 0)\<lparr>locking_thread_id := (\<lambda>x. None)(1 := Some 42)\<rparr>"

text \<open>The next open meets a system limit.\<close>

definition exhausted_world :: world where
  "exhausted_world = fresh_world\<lparr>open_faults := [Some SystemLimit]\<rparr>"

text \<open>Every graph is empty: the resources have been deleted.\<close>

definition stale_world :: world where
  "stale_world = fresh_world\<lparr>state := (\<lambda>x. [])\<rparr>"

text \<open>The same, while thread 42 holds the lock of object 1.\<close>

definition stale_held_world :: world where
  "stale_held_world = held_world\<lparr>state := (\<lambda>x. [])\<rparr>"

definition the_root :: resource where
  "the_root = \<lparr>oid = 0, uri = ''r/''\<rparr>"

definition the_base :: resource where
  "the_base = \<lparr>oid = 1, uri = ''b/''\<rparr>"

definition ktbs_vocabulary :: vocabulary where
  "ktbs_vocabulary =
     \<lparr>KTBS_hasBase = ''ktbs:hasBase'', RDF_type = ''rdf:type'', RDF_MAIN_TYPE = ''ktbs:Base''\<rparr>"

text \<open>A resource whose URI is empty, and a URI of 251 characters.\<close>

definition nameless :: resource where
  "nameless = \<lparr>oid = 2, uri = ''''\<rparr>"


text \<open>A body that does nothing, one that reports what it sees on entry (the holder
  record of an object and the value of a semaphore), one that raises, and one that posts a
  semaphore.\<close>

definition skip_body :: "unit action" where
  "skip_body w = (Inr (), w)"

definition observe_body :: "nat \<Rightarrow> nat \<Rightarrow> (int option \<times> sem_value) action" where
  "observe_body obj s w = (Inr (locking_thread_id w obj, sem_count w s), w)"

definition failing_body :: "unit action" where
  "failing_body w = (Inl (OtherError ''boom''), w)"

definition post_body :: "nat \<Rightarrow> unit action" where
  "post_body s w = sem_release s w"

text \<open>The semaphores a log acquires, in order.\<close>

fun acquisitions :: "event list \<Rightarrow> nat list" where
  "acquisitions [] = []"
| "acquisitions (Acquired s # es) = s # acquisitions es"
| "acquisitions (e # es) = acquisitions es"

section \<open>Basic facts about the primitives\<close>

declare str_replace.simps [simp del] str_nat.simps [simp del]

lemmas eval_defs = lock_def edit_def delete_def ack_delete_def get_lock_def Base_delete_def
  Base_ack_delete_def remove_base_triples_def reset_lock_def
  get_semaphore_def sem_open_def sem_acquire_def sem_release_def sem_close_def sem_unlink_def
  next_fault_def fault_error_def valid_sem_name_def SEM_NAME_MAX_def SEM_VALUE_MAX_def
  set_holder_def clear_holder_def mark_as_deleted_def log_def lock_finally_def busy_handler_def
  busy_message_def holder_text_def stale_message_def timeout_or_default_def LOCK_DEFAULT_TIMEOUT_def
  get_semaphore_name_def get_lock_sem_name_def str_replace.simps str_int_def str_nat.simps digit_char_def
  fresh_world_def world_with_count_def held_world_def stale_world_def stale_held_world_def
  exhausted_world_def the_root_def the_base_def nameless_def ktbs_vocabulary_def
  skip_body_def observe_body_def failing_body_def post_body_def Let_def

lemma SEM_VALUE_MAX_minus_one: "SEM_VALUE_MAX = - 1"
  by (simp add: SEM_VALUE_MAX_def)

lemma timeout_or_default_None: "timeout_or_default None = LOCK_DEFAULT_TIMEOUT"
  by (simp add: timeout_or_default_def)

lemma acquisitions_append: "acquisitions (xs @ ys) = acquisitions xs @ acquisitions ys"
  by (induction xs rule: acquisitions.induct) simp_all

lemma sem_value_at_most_one:
  fixes c :: sem_value
  assumes "0 < c" and "c \<le> 1"
  shows "c = 1"
proof -
  from assms(1) have "0 < unat c" by (simp add: word_less_nat_alt)
  moreover from assms(2) have "unat c \<le> 1" by (simp add: word_le_nat_alt)
  ultimately have "unat c = unat (1::sem_value)" by simp
  then show ?thesis by (simp only: word_unat_eq_iff)
qed


lemma sem_acquire_error:
  "sem_acquire t s w = (Inl e, w') \<Longrightarrow> e = BusyError ''Semaphore is busy'' \<and> sem_count w s = 0
     \<and> sem_count w' = sem_count w \<and> sem_names w' = sem_names w \<and> handles w' = handles w
     \<and> locking_thread_id w' = locking_thread_id w \<and> trace w' = trace w \<and> state w' = state w
     \<and> marked_deleted w' = marked_deleted w \<and> sem_next w' = sem_next w"
  by (auto simp: sem_acquire_def log_def word_gt_0 split: if_splits list.splits)

lemma sem_acquire_ok:
  "sem_acquire t s w = (Inr u, w') \<Longrightarrow>
     sem_count w' = (if 0 < sem_count w s then (sem_count w)(s := sem_count w s - 1)
                     else sem_count w)
     \<and> sem_names w' = sem_names w \<and> handles w' = handles w
     \<and> locking_thread_id w' = locking_thread_id w \<and> trace w' = trace w @ [Acquired s]
     \<and> state w' = state w \<and> marked_deleted w' = marked_deleted w \<and> sem_next w' = sem_next w"
  by (auto simp: sem_acquire_def log_def split: if_splits list.splits)

text \<open>After an acquisition the semaphore is below its maximum: a release cannot fail.\<close>

lemma sem_acquire_below_max:
  "sem_acquire t s w = (Inr u, w') \<Longrightarrow> sem_count w' s \<noteq> SEM_VALUE_MAX"
  by (auto simp: sem_acquire_def log_def SEM_VALUE_MAX_minus_one word_gt_0
           split: if_splits list.splits)


lemma sem_release_below_max:
  "sem_count w s \<noteq> SEM_VALUE_MAX \<Longrightarrow>
   sem_release s w
     = (Inr (), log (Released s) (w\<lparr>sem_count := (sem_count w)(s := sem_count w s + 1)\<rparr>))"
  by (simp add: sem_release_def)

lemma sem_release_at_max:
  "sem_count w s = SEM_VALUE_MAX \<Longrightarrow> sem_release s w = (Inl OSError, w)"
  by (simp add: sem_release_def)


lemma sem_open_error:
  "sem_open n w = (Inl e, w') \<Longrightarrow>
     sem_names w' = sem_names w \<and> sem_count w' = sem_count w \<and> sem_next w' = sem_next w
     \<and> handles w' = handles w \<and> trace w' = trace w \<and> posts w' = posts w
     \<and> locking_thread_id w' = locking_thread_id w \<and> state w' = state w
     \<and> marked_deleted w' = marked_deleted w"
  by (auto simp: sem_open_def next_fault_def Let_def log_def
           split: if_splits option.splits list.splits)


lemma sem_open_fields:
  "sem_open n w = (Inr s, w') \<Longrightarrow>
     valid_sem_name n
     \<and> locking_thread_id w' = locking_thread_id w \<and> state w' = state w
     \<and> marked_deleted w' = marked_deleted w
     \<and> posts w' = posts w \<and> handles w' = s # handles w
     \<and> trace w' = trace w @ [Opened n s]
     \<and> sem_names w' n = Some s"
  by (auto simp: sem_open_def next_fault_def log_def Let_def
           split: if_splits option.splits list.splits)

lemma get_semaphore_fields:
  "get_semaphore self w = (Inr s, w') \<Longrightarrow>
     valid_sem_name (get_semaphore_name (uri self))
     \<and> locking_thread_id w' = locking_thread_id w \<and> state w' = state w
     \<and> marked_deleted w' = marked_deleted w
     \<and> posts w' = posts w \<and> handles w' = s # handles w
     \<and> trace w' = trace w @ [Opened (get_semaphore_name (uri self)) s]
     \<and> sem_names w' (get_semaphore_name (uri self)) = Some s"
  unfolding get_semaphore_def by (rule sem_open_fields)

lemma lock_finally_below_max:
  assumes "sem_count (snd rw) sem \<noteq> SEM_VALUE_MAX"
  shows "lock_finally self sem rw =
           (fst rw,
            sem_close sem (log (Released sem)
              ((clear_holder self (snd rw))
                 \<lparr>sem_count := (sem_count (snd rw))(sem := sem_count (snd rw) sem + 1)\<rparr>)))"
  using assms by (simp add: lock_finally_def sem_release_def clear_holder_def log_def)

lemma lock_finally_at_max:
  assumes "sem_count (snd rw) sem = SEM_VALUE_MAX"
  shows "lock_finally self sem rw = (Inl OSError, clear_holder self (snd rw))"
  using assms by (simp add: lock_finally_def sem_release_def clear_holder_def log_def)

lemma lock_finally_holder:
  "locking_thread_id (snd (lock_finally self sem rw)) = (locking_thread_id (snd rw))(oid self := None)"
  by (simp add: lock_finally_def sem_release_def clear_holder_def sem_close_def log_def)

lemma lock_finally_fields:
  assumes "sem_count (snd rw) sem \<noteq> SEM_VALUE_MAX"
  shows "sem_count (snd (lock_finally self sem rw))
           = (sem_count (snd rw))(sem := sem_count (snd rw) sem + 1)"
    and "handles (snd (lock_finally self sem rw)) = remove1 sem (handles (snd rw))"
    and "trace (snd (lock_finally self sem rw))
           = trace (snd rw) @ [HolderCleared (oid self), Released sem, Closed sem]"
    and "fst (lock_finally self sem rw) = fst rw"
    and "state (snd (lock_finally self sem rw)) = state (snd rw)"
    and "marked_deleted (snd (lock_finally self sem rw)) = marked_deleted (snd rw)"
    and "sem_names (snd (lock_finally self sem rw)) = sem_names (snd rw)"
  by (simp_all add: lock_finally_below_max [OF assms] clear_holder_def sem_close_def log_def)

lemma busy_handler_snd: "snd (busy_handler self rw) = snd rw"
  by (simp add: busy_handler_def split: sum.splits exn.splits)

lemma busy_handler_fst:
  "fst (busy_handler self rw) =
     (case fst rw of
        Inl (BusyError m) \<Rightarrow>
          Inl (BusyError (busy_message (uri self) (locking_thread_id (snd rw) (oid self))))
      | r \<Rightarrow> r)"
  by (simp add: busy_handler_def split: sum.splits exn.splits)

subsection \<open>The ways through lock\<close>

lemma lock_held_by_caller:
  "locking_thread_id w (oid self) = Some tid \<Longrightarrow> lock tid self resource timeout body w = body w"
  by (simp add: lock_def)

lemma lock_nested_held_by_caller:
  "locking_thread_id w (oid self) = Some tid \<Longrightarrow>
   ((lock tid self resource timeout) ^^ n) body w = body w"
  by (induction n) (simp_all add: lock_held_by_caller)

lemma lock_open_fails:
  assumes "locking_thread_id w (oid self) \<noteq> Some tid"
      and "get_semaphore self w = (Inl e, w1)"
  shows "lock tid self resource timeout body w = (Inl e, w1)"
  using assms by (simp add: lock_def Let_def)

lemma lock_acquire_succeeds:
  assumes "locking_thread_id w (oid self) \<noteq> Some tid"
      and "get_semaphore self w = (Inr sem, w1)"
      and "sem_acquire (timeout_or_default timeout) sem w1 = (Inr u, w2)"
  shows "lock tid self resource timeout body w =
           busy_handler self (lock_finally self sem
             (if state w2 (oid resource) = []
              then (Inl (TypeError (stale_message (uri resource))),
                    mark_as_deleted resource (set_holder self tid w2))
              else body (set_holder self tid w2)))"
  using assms by (simp add: lock_def Let_def set_holder_def log_def)

lemma lock_acquire_fails:
  assumes "locking_thread_id w (oid self) \<noteq> Some tid"
      and "get_semaphore self w = (Inr sem, w1)"
      and "sem_acquire (timeout_or_default timeout) sem w1 = (Inl e, w2)"
  shows "lock tid self resource timeout body w =
           (Inl (BusyError (busy_message (uri self) (locking_thread_id w (oid self)))), w2)"
proof -
  from assms(3) have e: "e = BusyError ''Semaphore is busy''"
    and h2: "locking_thread_id w2 = locking_thread_id w1"
    by (auto dest: sem_acquire_error)
  from assms(2) have h1: "locking_thread_id w1 = locking_thread_id w"
    by (simp add: get_semaphore_fields)
  show ?thesis using assms e h1 h2
    by (simp add: lock_def Let_def busy_handler_def)
qed

lemma lock_stale_core:
  assumes "locking_thread_id w (oid self) \<noteq> Some tid"
      and "get_semaphore self w = (Inr sem, w1)"
      and "sem_acquire (timeout_or_default timeout) sem w1 = (Inr u, w2)"
      and "state w (oid resource) = []"
  shows "lock tid self resource timeout body w =
           (Inl (TypeError (stale_message (uri resource))),
            sem_close sem (snd (sem_release sem (clear_holder self
              (mark_as_deleted resource (set_holder self tid w2))))))"
proof -
  let ?ws = "mark_as_deleted resource (set_holder self tid w2)"
  have st: "state w2 (oid resource) = []"
    using assms by (auto dest: sem_acquire_ok simp: get_semaphore_fields)
  have "sem_count w2 sem \<noteq> SEM_VALUE_MAX"
    using assms(3) by (rule sem_acquire_below_max)
  then have "sem_count (clear_holder self ?ws) sem \<noteq> SEM_VALUE_MAX"
    by (simp add: clear_holder_def mark_as_deleted_def set_holder_def log_def)
  then show ?thesis
    by (simp add: lock_acquire_succeeds [OF assms(1-3)] st busy_handler_def lock_finally_def
                  sem_release_below_max)
qed

subsection \<open>reset and ack_delete\<close>





lemma ack_delete_completes:
  assumes "super_ack_delete w = (Inr u, w0)"
      and "get_semaphore self w0 = (Inr s, w1)"
  shows "fst (ack_delete self super_ack_delete w) = Inr ()"
  using assms get_semaphore_fields [OF assms(2)]
  by (simp add: ack_delete_def sem_unlink_def)

subsection \<open>Semaphore names\<close>

lemma str_replace_char:
  "str_replace [a] [b] s = map (\<lambda>c. if c = a then b else c) s"
  by (induction s) (auto simp: str_replace.simps)

lemma slash_subst_inj:
  "CHR ''-'' \<notin> set u1 \<Longrightarrow> CHR ''-'' \<notin> set u2 \<Longrightarrow>
   map (\<lambda>c. if c = CHR ''/'' then CHR ''-'' else c) u1
     = map (\<lambda>c. if c = CHR ''/'' then CHR ''-'' else c) u2 \<Longrightarrow> u1 = u2"
proof (induction u1 arbitrary: u2)
  case Nil
  then show ?case by simp
next
  case (Cons a u1)
  then obtain b u2' where u2: "u2 = b # u2'" by (cases u2) auto
  with Cons.prems have "a = b" by (auto split: if_splits)
  moreover from Cons u2 have "u1 = u2'" by auto
  ultimately show ?case using u2 by simp
qed


subsection \<open>Decimal numerals\<close>

lemma digit_value_digit_char: "digit_value (digit_char d) = Some (d mod 10)"
proof -
  define k where "k = d mod 10"
  then have "k < 10" by simp
  then have "k = 0 \<or> k = 1 \<or> k = 2 \<or> k = 3 \<or> k = 4 \<or> k = 5 \<or> k = 6 \<or> k = 7 \<or> k = 8 \<or> k = 9"
    by arith
  then have "digit_value (''0123456789'' ! k) = Some k"
    unfolding digit_value_def by (auto simp: Let_def)
  then show ?thesis
    by (simp add: digit_char_def k_def)
qed

lemma read_digits_snoc:
  "read_digits acc (xs @ [c]) =
     (case read_digits acc xs of
        None \<Rightarrow> None
      | Some a \<Rightarrow> (case digit_value c of None \<Rightarrow> None | Some d \<Rightarrow> Some (10 * a + d)))"
  by (induction xs arbitrary: acc) (auto split: option.splits)

lemma read_digits_str_nat: "read_digits 0 (str_nat n) = Some n"
proof (induction n rule: str_nat.induct)
  case (1 n)
  show ?case
  proof (cases "n < 10")
    case True
    then show ?thesis
      by (subst str_nat.simps) (simp add: digit_value_digit_char)
  next
    case False
    with 1 have "read_digits 0 (str_nat (n div 10)) = Some (n div 10)" by simp
    with False show ?thesis
      by (subst str_nat.simps) (simp add: read_digits_snoc digit_value_digit_char)
  qed
qed

lemma str_nat_not_empty: "str_nat n \<noteq> []"
  by (subst str_nat.simps) simp

lemma read_nat_str_nat: "read_nat (str_nat n) = Some n"
  by (simp add: read_nat_def str_nat_not_empty read_digits_str_nat)

lemma digit_value_minus: "digit_value (CHR ''-'') = None"
  by (simp add: digit_value_def)

lemma str_nat_no_sign: "str_nat n = c # cs \<Longrightarrow> c \<noteq> CHR ''-''"
proof
  assume a: "str_nat n = c # cs" and "c = CHR ''-''"
  then have "read_digits 0 (str_nat n) = None" by (simp add: digit_value_minus)
  then show False by (simp add: read_digits_str_nat)
qed

text \<open>The rendering of an integer reads back as that integer.\<close>

lemma read_int_str_int: "read_int (str_int i) = Some i"
proof (cases "i < 0")
  case True
  then show ?thesis by (simp add: read_int_def str_int_def read_nat_str_nat)
next
  case False
  obtain c cs where s: "str_nat (nat i) = c # cs"
    using str_nat_not_empty [of "nat i"] by (cases "str_nat (nat i)") auto
  then have "c \<noteq> CHR ''-''" by (rule str_nat_no_sign)
  moreover have "read_nat (c # cs) = Some (nat i)"
    using read_nat_str_nat [of "nat i"] s by simp
  ultimately show ?thesis using False s by (simp add: read_int_def str_int_def)
qed

section \<open>Hierarchical locking on delete\<close>

text \<open>
  Claim C1, for \<^verbatim>\<open>WithLockMixin.delete\<close>, when the calling thread holds neither lock yet,
  the root and the target are different objects, and the root's semaphore has been opened
  and acquired (the first acquisition of delete). A release of the root's semaphore can
  then not fail for the acquisition's sake, and where the acquisition was a decrement the
  release undoes it.
  \<^item> If the state of the target is empty, the lock of the root raises the stale error
    before the target's own lock is entered: the root's semaphore is the only one
    acquired, and the root's lock is given back.
  \<^item> Otherwise the target's own semaphore is opened second. If the open fails (the OS
    rejects the name, or has a fault), or if the acquisition times out, the root's lock
    is given back and the caller gets the error; the \<open>BusyError\<close> of the timeout is
    rewritten by the handler of the root's lock and names the root.
  \<^item> If the second acquisition succeeds, the inherited delete runs with both locks held,
    the root's acquired first. Where no release finds its semaphore at the maximum, the
    locks are left in the reverse order.

  The root's lock given back means: holder record of the root cleared, its semaphore one
  above the value after the acquisition and no other value changed, handle closed.
\<close>

theorem delete_locks_root_then_self:
  assumes "oid root \<noteq> oid self"
      and "locking_thread_id w (oid root) \<noteq> Some tid"
      and "locking_thread_id w (oid self) \<noteq> Some tid"
      and "get_semaphore root w = (Inr rsem, w1)"
      and "sem_acquire LOCK_DEFAULT_TIMEOUT rsem w1 = (Inr u, w2)"
  shows "(let w3 = set_holder root tid w2;
              result = fst (delete tid self root super_delete w);
              wf = snd (delete tid self root super_delete w);
              rname = get_semaphore_name (uri root);
              sname = get_semaphore_name (uri self);
              entered = trace w @ [Opened rname rsem, Acquired rsem, HolderSet (oid root) tid];
              left = [HolderCleared (oid root), Released rsem, Closed rsem];
              given_back = (locking_thread_id wf = (locking_thread_id w)(oid root := None)
                            \<and> sem_count wf = (sem_count w2)(rsem := sem_count w2 rsem + 1))
          in sem_count w2 rsem \<noteq> SEM_VALUE_MAX
           \<and> (0 < sem_count w1 rsem \<longrightarrow> sem_count w2 rsem + 1 = sem_count w1 rsem)
           \<and> (if state w (oid self) = []
               then result = Inl (TypeError (stale_message (uri self)))
                  \<and> trace wf = entered @ [MarkedDeleted (oid self)] @ left
                  \<and> given_back
               else
                 (case get_semaphore self w3 of
                    (Inl e, w4) \<Rightarrow>
                      result = Inl e \<and> trace wf = entered @ left \<and> given_back
                  | (Inr ssem, w4) \<Rightarrow>
                      (case sem_acquire LOCK_DEFAULT_TIMEOUT ssem w4 of
                         (Inl e, w5) \<Rightarrow>
                           result = Inl (BusyError (busy_message (uri root) None))
                           \<and> trace wf = entered @ [Opened sname ssem] @ left
                           \<and> given_back
                       | (Inr u', w5) \<Rightarrow>
                           (let w6 = set_holder self tid w5;
                                wb = snd (super_delete w6)
                            in delete tid self root super_delete w =
                                 busy_handler root (lock_finally root rsem
                                   (busy_handler self (lock_finally self ssem (super_delete w6))))
                             \<and> trace w6 = entered @ [Opened sname ssem, Acquired ssem,
                                                      HolderSet (oid self) tid]
                             \<and> acquisitions (trace w6) = acquisitions (trace w) @ [rsem, ssem]
                             \<and> (sem_count wb ssem \<noteq> SEM_VALUE_MAX
                                  \<and> ((sem_count wb)(ssem := sem_count wb ssem + 1)) rsem
                                        \<noteq> SEM_VALUE_MAX
                                \<longrightarrow> trace wf = trace wb @
                                     [HolderCleared (oid self), Released ssem, Closed ssem,
                                      HolderCleared (oid root), Released rsem, Closed rsem]))))))"
proof -
  let ?w3 = "set_holder root tid w2"
  let ?entered = "trace w @ [Opened (get_semaphore_name (uri root)) rsem, Acquired rsem,
                             HolderSet (oid root) tid]"
  note a_root = assms(5) [folded timeout_or_default_None]
  from assms(4,5) have st2: "state w2 = state w"
    and h2: "locking_thread_id w2 = locking_thread_id w"
    and t2: "trace w2 = trace w @ [Opened (get_semaphore_name (uri root)) rsem, Acquired rsem]"
    by (auto dest!: sem_acquire_ok simp: get_semaphore_fields)
  from assms(5) have below: "sem_count w2 rsem \<noteq> SEM_VALUE_MAX"
    by (rule sem_acquire_below_max)
  from assms(5) have undo: "0 < sem_count w1 rsem \<longrightarrow> sem_count w2 rsem + 1 = sem_count w1 rsem"
    by (auto dest!: sem_acquire_ok)
  have f3: "state ?w3 = state w" "locking_thread_id ?w3 = (locking_thread_id w)(oid root := Some tid)"
    "trace ?w3 = ?entered" "sem_count ?w3 = sem_count w2"
    by (simp_all add: set_holder_def log_def st2 h2 t2)
  have nr3: "locking_thread_id ?w3 (oid self) \<noteq> Some tid"
    using assms(1,3) by (simp add: f3)
  have upd: "((locking_thread_id w)(oid root := Some tid))(oid root := None)
               = (locking_thread_id w)(oid root := None)"
    by simp
  show ?thesis
  proof (cases "state w (oid self) = []")
    case True
    let ?wm = "mark_as_deleted self ?w3"
    have outer: "delete tid self root super_delete w =
        busy_handler root (lock_finally root rsem
          (Inl (TypeError (stale_message (uri self))), ?wm))"
      unfolding delete_def lock_acquire_succeeds [OF assms(2,4) a_root]
      using True by (simp add: st2)
    have bm: "sem_count ?wm rsem \<noteq> SEM_VALUE_MAX"
      using below by (simp add: mark_as_deleted_def log_def f3)
    note fin = lock_finally_below_max [where rw = "(Inl (TypeError (stale_message (uri self))), ?wm)"
        and sem = rsem and self = root, simplified, OF bm]
    show ?thesis
      unfolding Let_def outer fin using True below undo
      by (simp add: busy_handler_def sem_close_def clear_holder_def mark_as_deleted_def log_def f3)
  next
    case False
    have outer: "delete tid self root super_delete w =
        busy_handler root (lock_finally root rsem (lock tid self self None super_delete ?w3))"
      unfolding delete_def lock_acquire_succeeds [OF assms(2,4) a_root]
      using False by (simp add: st2)
    obtain g w4 where g: "get_semaphore self ?w3 = (g, w4)" by (cases "get_semaphore self ?w3")
    show ?thesis
    proof (cases g)
      case (Inl e)
      with g have g': "get_semaphore self ?w3 = (Inl e, w4)" by simp
      have inner: "lock tid self self None super_delete ?w3 = (Inl e, w4)"
        by (rule lock_open_fails [OF nr3 g'])
      from g' have f4: "sem_count w4 = sem_count w2" "trace w4 = ?entered"
        "locking_thread_id w4 = (locking_thread_id w)(oid root := Some tid)"
        by (auto simp: get_semaphore_def f3 dest!: sem_open_error)
      have ne: "e \<noteq> BusyError m" for m
        using g' by (auto simp: get_semaphore_def sem_open_def next_fault_def fault_error_def
              Let_def
            split: if_splits option.splits list.splits os_fault.splits)
      have bm: "sem_count w4 rsem \<noteq> SEM_VALUE_MAX" using below by (simp add: f4)
      note fin = lock_finally_below_max [where rw = "(Inl e, w4)"
          and sem = rsem and self = root, simplified, OF bm]
      show ?thesis
        unfolding Let_def outer inner fin using False below undo g' ne
        by (simp add: busy_handler_def sem_close_def clear_holder_def log_def f4
                 split: exn.splits)
    next
      case (Inr ssem)
      with g have g': "get_semaphore self ?w3 = (Inr ssem, w4)" by simp
      from g' have st4: "state w4 = state w"
        and h4: "locking_thread_id w4 = (locking_thread_id w)(oid root := Some tid)"
        and t4: "trace w4 = ?entered @ [Opened (get_semaphore_name (uri self)) ssem]"
        by (simp_all add: get_semaphore_fields f3)
      obtain r w5 where a: "sem_acquire LOCK_DEFAULT_TIMEOUT ssem w4 = (r, w5)"
        by (cases "sem_acquire LOCK_DEFAULT_TIMEOUT ssem w4")
      show ?thesis
      proof (cases r)
        case (Inr u')
        with a have a': "sem_acquire LOCK_DEFAULT_TIMEOUT ssem w4 = (Inr u', w5)" by simp
        note a_self = a' [folded timeout_or_default_None]
        from a' have st5: "state w5 = state w"
          and t5: "trace w5 = trace w4 @ [Acquired ssem]"
          by (auto dest!: sem_acquire_ok simp: st4)
        let ?w6 = "set_holder self tid w5"
        let ?wb = "snd (super_delete ?w6)"
        have inner: "lock tid self self None super_delete ?w3 =
            busy_handler self (lock_finally self ssem (super_delete ?w6))"
          unfolding lock_acquire_succeeds [OF nr3 g' a_self] using False by (simp add: st5)
        have t6: "trace ?w6 = ?entered @ [Opened (get_semaphore_name (uri self)) ssem,
                                          Acquired ssem, HolderSet (oid self) tid]"
          by (simp add: set_holder_def log_def t5 t4)
        have rel: "trace (snd (busy_handler root (lock_finally root rsem
                     (busy_handler self (lock_finally self ssem (super_delete ?w6))))))
                   = trace ?wb @ [HolderCleared (oid self), Released ssem, Closed ssem,
                                  HolderCleared (oid root), Released rsem, Closed rsem]"
          if b1: "sem_count ?wb ssem \<noteq> SEM_VALUE_MAX"
            and b2: "((sem_count ?wb)(ssem := sem_count ?wb ssem + 1)) rsem \<noteq> SEM_VALUE_MAX"
        proof -
          let ?in = "busy_handler self (lock_finally self ssem (super_delete ?w6))"
          have c: "sem_count (snd ?in) = (sem_count ?wb)(ssem := sem_count ?wb ssem + 1)"
            and t: "trace (snd ?in) = trace ?wb @ [HolderCleared (oid self), Released ssem, Closed ssem]"
            by (simp_all add: busy_handler_snd lock_finally_fields [OF b1])
          from b2 c have b3: "sem_count (snd ?in) rsem \<noteq> SEM_VALUE_MAX" by simp
          show ?thesis
            by (simp add: busy_handler_snd lock_finally_fields [OF b3] lock_finally_fields [OF b1])
        qed
        show ?thesis
          unfolding Let_def using False below undo g' a' rel
          by (simp add: outer inner t6 acquisitions_append)
      next
        case (Inl e)
        with a have a': "sem_acquire LOCK_DEFAULT_TIMEOUT ssem w4 = (Inl e, w5)" by simp
        note a_self = a' [folded timeout_or_default_None]
        from a' have f5: "locking_thread_id w5 = locking_thread_id w4" "trace w5 = trace w4"
          "sem_count w5 = sem_count w4" and z: "sem_count w4 ssem = 0"
          by (auto dest!: sem_acquire_error)
        have c4: "sem_count w4 = sem_count w2"
          using g' z
          by (auto simp: get_semaphore_def sem_open_def next_fault_def set_holder_def log_def
                         Let_def
                   split: option.splits if_splits list.splits)
        have inner: "lock tid self self None super_delete ?w3 =
            (Inl (BusyError (busy_message (uri self) (locking_thread_id ?w3 (oid self)))), w5)"
          by (rule lock_acquire_fails [OF nr3 g' a_self])
        have bm: "sem_count w5 rsem \<noteq> SEM_VALUE_MAX" using below by (simp add: f5 c4)
        note fin = lock_finally_below_max [where
            rw = "(Inl (BusyError (busy_message (uri self) (locking_thread_id ?w3 (oid self)))), w5)"
            and sem = rsem and self = root, simplified, OF bm]
        show ?thesis
          unfolding Let_def outer inner fin using False below undo g' a'
          by (simp add: busy_handler_def sem_close_def clear_holder_def log_def f5 h4 t4 c4)
      qed
    qed
  qed
qed

text \<open>
  Two cases on concrete machines. Thread 7 deletes the base \<open>b/\<close>, whose semaphore is at 0
  and is not posted: the root's semaphore is created, taken and given back. Thread 7
  deletes the base when its graph is empty: the root's semaphore alone is taken.
\<close>

theorem delete_locks_root_then_self_witness:
  "oid the_root \<noteq> oid the_base
   \<and> locking_thread_id (world_with_count 0) (oid the_root) \<noteq> Some 7
   \<and> locking_thread_id (world_with_count 0) (oid the_base) \<noteq> Some 7
   \<and> fst (get_semaphore the_root (world_with_count 0)) = Inr 1
   \<and> fst (sem_acquire LOCK_DEFAULT_TIMEOUT 1 (snd (get_semaphore the_root (world_with_count 0))))
       = Inr ()
   \<and> fst (delete 7 the_base the_root skip_body (world_with_count 0))
       = Inl (BusyError ''The resource <r/> is locked by thread Unknown.'')
   \<and> sem_count (snd (delete 7 the_base the_root skip_body (world_with_count 0))) 1 = 1
   \<and> locking_thread_id (snd (delete 7 the_base the_root skip_body (world_with_count 0))) 0 = None
   \<and> trace (snd (delete 7 the_base the_root skip_body (world_with_count 0)))
       = [Opened ''/r-'' 1, Acquired 1, HolderSet 0 7, Opened ''/b-'' 0,
          HolderCleared 0, Released 1, Closed 1]
   \<and> fst (get_semaphore the_root stale_world) = Inr 0
   \<and> fst (sem_acquire LOCK_DEFAULT_TIMEOUT 0 (snd (get_semaphore the_root stale_world))) = Inr ()
   \<and> fst (delete 7 the_base the_root skip_body stale_world)
       = Inl (TypeError ''The resource <b/> no longer exists.'')
   \<and> trace (snd (delete 7 the_base the_root skip_body stale_world))
       = [Opened ''/r-'' 0, Acquired 0, HolderSet 0 7, MarkedDeleted 1,
          HolderCleared 0, Released 0, Closed 0]"
proof -
  let ?w = "world_with_count 0"
  let ?w1 = "snd (get_semaphore the_root ?w)"
  let ?w2 = "snd (sem_acquire LOCK_DEFAULT_TIMEOUT 1 ?w1)"
  let ?v1 = "snd (get_semaphore the_root stale_world)"
  let ?v2 = "snd (sem_acquire LOCK_DEFAULT_TIMEOUT 0 ?v1)"
  have h1: "oid the_root \<noteq> oid the_base"
    and h2: "locking_thread_id ?w (oid the_root) \<noteq> Some 7"
    and h3: "locking_thread_id ?w (oid the_base) \<noteq> Some 7"
    and h4: "get_semaphore the_root ?w = (Inr 1, ?w1)"
    and k2: "locking_thread_id stale_world (oid the_root) \<noteq> Some 7"
    and k3: "locking_thread_id stale_world (oid the_base) \<noteq> Some 7"
    and k4: "get_semaphore the_root stale_world = (Inr 0, ?v1)"
    by (simp_all add: eval_defs)
  have h5: "sem_acquire LOCK_DEFAULT_TIMEOUT 1 ?w1 = (Inr (), ?w2)"
    and k5: "sem_acquire LOCK_DEFAULT_TIMEOUT 0 ?v1 = (Inr (), ?v2)"
    by (simp_all add: eval_defs)
  from delete_locks_root_then_self [OF h1 h2 h3 h4 h5, where super_delete = skip_body]
    delete_locks_root_then_self [OF h1 k2 k3 k4 k5, where super_delete = skip_body]
  show ?thesis
    using h1 h2 h3 by (simp add: eval_defs)
qed

text \<open>
  \<^verbatim>\<open>Base.delete\<close> of base.py takes another way: it acquires the base's own semaphore through
  \<^verbatim>\<open>get_lock\<close> before it calls the inherited delete. With an inherited delete that locks
  nothing, the base's semaphore (object 0) is the only one acquired and the root's name
  is never opened. With \<^verbatim>\<open>WithLockMixin.delete\<close> as the inherited delete, the base's
  semaphore is acquired first and the root's (object 1) second; the third acquisition, of
  the base's semaphore again, finds the value 0 that \<^verbatim>\<open>get_lock\<close> left (it keeps no holder
  record) and ends in \<open>BusyError\<close>.
\<close>

theorem Base_delete_acquires_own_semaphore_first:
  "acquisitions (trace (snd (Base_delete the_base skip_body fresh_world))) = [0]
   \<and> sem_names (snd (Base_delete the_base skip_body fresh_world))
        (get_semaphore_name (uri the_base)) = Some 0
   \<and> sem_names (snd (Base_delete the_base skip_body fresh_world))
        (get_semaphore_name (uri the_root)) = None
   \<and> trace (snd (Base_delete the_base (delete 7 the_base the_root skip_body) fresh_world))
       = [Opened ''/b-'' 0, Acquired 0, Opened ''/r-'' 1, Acquired 1, HolderSet 0 7,
          Opened ''/b-'' 0, HolderCleared 0, Released 1, Closed 1, Released 0]
   \<and> fst (Base_delete the_base (delete 7 the_base the_root skip_body) fresh_world)
       = Inl (BusyError ''The resource <r/> is locked by thread Unknown.'')"
  by (simp add: eval_defs)

section \<open>Reentrancy\<close>

text \<open>
  Claim C2. When the calling thread is the recorded holder of \<open>R\<close>'s lock, any number \<open>n\<close>
  of nested calls of lock on \<open>R\<close> run the body and nothing else: the result and the whole
  machine, the log of semaphore operations included, are those of the body alone. And
  \<open>n\<close> nested calls inside an outer call of lock on \<open>R\<close> change nothing of what the outer call
  does alone, so the semaphore is released once, by the outermost exit.
\<close>

theorem lock_reentrant_nesting:
  "(locking_thread_id w (oid R) = Some tid \<longrightarrow>
      ((lock tid R resource timeout) ^^ n) body w = body w)
   \<and> lock tid R resource timeout (((lock tid R resource' timeout') ^^ n) body) w
       = lock tid R resource timeout body w"
proof (intro conjI impI)
  assume "locking_thread_id w (oid R) = Some tid"
  then show "((lock tid R resource timeout) ^^ n) body w = body w"
    by (rule lock_nested_held_by_caller)
next
  have inner: "((lock tid R resource' timeout') ^^ n) body (set_holder R tid v)
                 = body (set_holder R tid v)" for v
    by (rule lock_nested_held_by_caller) (simp add: set_holder_def log_def)
  show "lock tid R resource timeout (((lock tid R resource' timeout') ^^ n) body) w
       = lock tid R resource timeout body w"
  proof (cases "locking_thread_id w (oid R) = Some tid")
    case True
    then show ?thesis by (simp add: lock_held_by_caller lock_nested_held_by_caller)
  next
    case False
    then show ?thesis
      by (simp add: lock_def Let_def inner split: prod.splits sum.splits)
  qed
qed

theorem lock_reentrant_nesting_witness:
  "locking_thread_id held_world (oid the_base) = Some 42
   \<and> ((lock 42 the_base the_base None) ^^ 3) skip_body held_world = (Inr (), held_world)
   \<and> trace (snd (lock 7 the_base the_base None
                     (((lock 7 the_base the_base (Some 5)) ^^ 3) skip_body) fresh_world))
       = [Opened ''/b-'' 0, Acquired 0, HolderSet 1 7, HolderCleared 1, Released 0, Closed 0]"
proof -
  have h: "locking_thread_id held_world (oid the_base) = Some 42"
    by (simp add: held_world_def the_base_def)
  have a: "((lock 42 the_base the_base None) ^^ 3) skip_body held_world = skip_body held_world"
    using lock_reentrant_nesting [where w = held_world and R = the_base and tid = 42
        and resource = the_base and timeout = None and n = 3 and body = skip_body] h
    by blast
  have b: "lock 7 the_base the_base None
             (((lock 7 the_base the_base (Some 5)) ^^ 3) skip_body) fresh_world
           = lock 7 the_base the_base None skip_body fresh_world"
    using lock_reentrant_nesting [where w = fresh_world and R = the_base and tid = 7
        and resource = the_base and timeout = None and n = 3 and body = skip_body
        and resource' = the_base and timeout' = "Some 5"]
    by blast
  show ?thesis
    unfolding b a using h by (simp add: eval_defs)
qed

section \<open>Release on exit\<close>

text \<open>
  Claim C3, for a semaphore below \<open>SEM_VALUE_MAX\<close> at the end of the protected section.
  Take a call of lock by a thread that is not the recorded holder, whose acquisition
  succeeds. The section ends in one of three ways: the resource is stale and the error is
  raised before the body, or the body returns, or the body raises. In each of them the
  holder record is cleared. Where the semaphore is then below its maximum, which is so on
  the stale path and whenever the section left the value as the acquisition left it, the
  semaphore is released (one above its value at the end of the section; the value before
  the call, when the section left it alone and the acquisition was a decrement) and the
  handle is closed, these being the last three effects, in this order; the result is the
  stale error, or that of the body, where a \<open>BusyError\<close> of the body is rewritten by the
  handler of this lock. Where the semaphore is at its maximum, the release raises: the
  holder record is cleared, the value and the open handles stay, and \<open>OSError\<close> is the
  result.
\<close>

theorem lock_releases_below_maximum:
  assumes "locking_thread_id w (oid self) \<noteq> Some tid"
      and "get_semaphore self w = (Inr sem, w1)"
      and "sem_acquire (timeout_or_default timeout) sem w1 = (Inr u, w2)"
  shows "(let w3 = set_holder self tid w2;
              stale = (state w2 (oid resource) = []);
              section_end = (if stale then mark_as_deleted resource w3 else snd (body w3));
              result = fst (lock tid self resource timeout body w);
              wf = snd (lock tid self resource timeout body w)
          in locking_thread_id wf (oid self) = None
           \<and> (stale \<longrightarrow> sem_count section_end sem \<noteq> SEM_VALUE_MAX)
           \<and> (sem_count section_end sem = sem_count w2 sem
                \<longrightarrow> sem_count section_end sem \<noteq> SEM_VALUE_MAX)
           \<and> (sem_count section_end sem \<noteq> SEM_VALUE_MAX \<longrightarrow>
                sem_count wf = (sem_count section_end)(sem := sem_count section_end sem + 1)
              \<and> handles wf = remove1 sem (handles section_end)
              \<and> trace wf = trace section_end @ [HolderCleared (oid self), Released sem, Closed sem]
              \<and> (sem_count section_end sem = sem_count w2 sem \<and> 0 < sem_count w1 sem
                   \<longrightarrow> sem_count wf sem = sem_count w1 sem)
              \<and> result =
                  (if stale then Inl (TypeError (stale_message (uri resource)))
                   else (case fst (body w3) of
                           Inl (BusyError m) \<Rightarrow> Inl (BusyError (busy_message (uri self) None))
                         | r \<Rightarrow> r)))
           \<and> (sem_count section_end sem = SEM_VALUE_MAX \<longrightarrow>
                result = Inl OSError
              \<and> sem_count wf = sem_count section_end
              \<and> handles wf = handles section_end
              \<and> trace wf = trace section_end @ [HolderCleared (oid self)]))"
proof -
  let ?w3 = "set_holder self tid w2"
  let ?section = "if state w2 (oid resource) = []
              then (Inl (TypeError (stale_message (uri resource))), mark_as_deleted resource ?w3)
              else body ?w3"
  from assms(3) have below: "sem_count w2 sem \<noteq> SEM_VALUE_MAX"
    by (rule sem_acquire_below_max)
  from assms(3) have undo: "0 < sem_count w1 sem \<Longrightarrow> sem_count w2 sem + 1 = sem_count w1 sem"
    by (auto dest!: sem_acquire_ok)
  have eq: "lock tid self resource timeout body w = busy_handler self (lock_finally self sem ?section)"
    by (rule lock_acquire_succeeds [OF assms])
  have holder: "locking_thread_id (snd (lock tid self resource timeout body w)) (oid self) = None"
    by (simp add: eq busy_handler_snd lock_finally_holder)
  have stale: "state w2 (oid resource) = [] \<Longrightarrow>
        sem_count (mark_as_deleted resource ?w3) sem \<noteq> SEM_VALUE_MAX"
    using below by (simp add: mark_as_deleted_def set_holder_def log_def)
  have ok: "sem_count (snd ?section) sem \<noteq> SEM_VALUE_MAX \<Longrightarrow>
       lock tid self resource timeout body w =
         busy_handler self (fst ?section,
            sem_close sem (log (Released sem)
              ((clear_holder self (snd ?section))
                 \<lparr>sem_count := (sem_count (snd ?section))
                                  (sem := sem_count (snd ?section) sem + 1)\<rparr>)))"
  proof -
    assume a: "sem_count (snd ?section) sem \<noteq> SEM_VALUE_MAX"
    show ?thesis unfolding eq by (subst lock_finally_below_max [OF a]) (rule refl)
  qed
  have sat: "sem_count (snd ?section) sem = SEM_VALUE_MAX \<Longrightarrow>
       lock tid self resource timeout body w = (Inl OSError, clear_holder self (snd ?section))"
  proof -
    assume a: "sem_count (snd ?section) sem = SEM_VALUE_MAX"
    show ?thesis unfolding eq by (subst lock_finally_at_max [OF a]) (simp add: busy_handler_def)
  qed
  show ?thesis
  proof (cases "sem_count (snd ?section) sem = SEM_VALUE_MAX")
    case True
    have ns: "state w2 (oid resource) \<noteq> []" using True stale by auto
    show ?thesis
      unfolding Let_def using True holder below ns
      by (simp add: sat [OF True] clear_holder_def log_def)
  next
    case False
    show ?thesis
      unfolding Let_def using False holder below undo
      by (cases "state w2 (oid resource) = []")
         (auto simp: ok [OF False] busy_handler_snd busy_handler_fst sem_close_def clear_holder_def
                 log_def mark_as_deleted_def set_holder_def
               split: sum.splits exn.splits)
  qed
qed

text \<open>A body that raises, on a machine with no semaphore yet.\<close>

theorem lock_releases_below_maximum_witness:
  "locking_thread_id fresh_world (oid the_base) \<noteq> Some 7
   \<and> fst (get_semaphore the_base fresh_world) = Inr 0
   \<and> fst (sem_acquire (timeout_or_default None) 0 (snd (get_semaphore the_base fresh_world)))
       = Inr ()
   \<and> fst (lock 7 the_base the_base None failing_body fresh_world) = Inl (OtherError ''boom'')
   \<and> locking_thread_id (snd (lock 7 the_base the_base None failing_body fresh_world)) 1 = None
   \<and> sem_count (snd (lock 7 the_base the_base None failing_body fresh_world)) 0 = 1
   \<and> handles (snd (lock 7 the_base the_base None failing_body fresh_world)) = []
   \<and> trace (snd (lock 7 the_base the_base None failing_body fresh_world))
       = [Opened ''/b-'' 0, Acquired 0, HolderSet 1 7, HolderCleared 1, Released 0, Closed 0]"
proof -
  let ?w1 = "snd (get_semaphore the_base fresh_world)"
  let ?w2 = "snd (sem_acquire (timeout_or_default None) 0 ?w1)"
  have h1: "locking_thread_id fresh_world (oid the_base) \<noteq> Some 7"
    by (simp add: eval_defs)
  have h2: "get_semaphore the_base fresh_world = (Inr 0, ?w1)"
    by (simp add: eval_defs)
  have h3: "sem_acquire (timeout_or_default None) 0 ?w1 = (Inr (), ?w2)"
    by (simp add: eval_defs)
  from lock_releases_below_maximum [OF h1 h2 h3, where resource = the_base and body = failing_body]
  show ?thesis
    using h1 by (simp add: eval_defs)
qed

text \<open>
  The release in the \<^verbatim>\<open>finally\<close> block is not guarded. The semaphore of \<open>b/\<close> is at
  \<open>SEM_VALUE_MAX\<close>; the acquisition takes it one below, the body posts it once, and the
  release of the lock finds it at the maximum: the call ends in \<open>OSError\<close>, with no release
  of its own and no close in the log, and the handle still open.
\<close>

theorem lock_release_fails_at_maximum:
  "fst (lock 7 the_base the_base None (post_body 0) (world_with_count SEM_VALUE_MAX)) = Inl OSError
   \<and> handles (snd (lock 7 the_base the_base None (post_body 0) (world_with_count SEM_VALUE_MAX)))
       = [0]
   \<and> sem_count (snd (lock 7 the_base the_base None (post_body 0) (world_with_count SEM_VALUE_MAX))) 0
       = SEM_VALUE_MAX
   \<and> trace (snd (lock 7 the_base the_base None (post_body 0) (world_with_count SEM_VALUE_MAX)))
       = [Opened ''/b-'' 0, Acquired 0, HolderSet 1 7, Released 0, HolderCleared 1]"
  by (simp add: eval_defs)

section \<open>The stale resource\<close>

text \<open>
  Claim C4. Take a call of lock by a thread that is not the recorded holder, whose
  acquisition succeeds, for a resource whose state is empty. Whatever the body is, it is
  not run: the resource is marked as deleted, the \<open>TypeError\<close> that names the resource's
  URI (the specification's StaleResourceError) is raised, and the lock is given back all
  the same: holder cleared, semaphore released (the release cannot fail here), handle
  closed.
\<close>

theorem lock_stale_resource:
  assumes "locking_thread_id w (oid self) \<noteq> Some tid"
      and "get_semaphore self w = (Inr sem, w1)"
      and "sem_acquire (timeout_or_default timeout) sem w1 = (Inr u, w2)"
      and "state w (oid resource) = []"
  shows "lock tid self resource timeout body w =
           (Inl (TypeError (stale_message (uri resource))),
            sem_close sem (snd (sem_release sem (clear_holder self
              (mark_as_deleted resource (set_holder self tid w2))))))
       \<and> fst (sem_release sem (clear_holder self
              (mark_as_deleted resource (set_holder self tid w2)))) = Inr ()
       \<and> sublist (uri resource) (stale_message (uri resource))
       \<and> (let wf = snd (lock tid self resource timeout body w) in
            oid resource \<in> marked_deleted wf
          \<and> locking_thread_id wf (oid self) = None
          \<and> sem_count wf sem = sem_count w2 sem + 1
          \<and> sem_count w2 sem \<noteq> SEM_VALUE_MAX
          \<and> handles wf = remove1 sem (handles w1)
          \<and> trace wf = trace w @
               [Opened (get_semaphore_name (uri self)) sem, Acquired sem,
                HolderSet (oid self) tid, MarkedDeleted (oid resource),
                HolderCleared (oid self), Released sem, Closed sem])"
proof -
  let ?ws = "mark_as_deleted resource (set_holder self tid w2)"
  have st: "state w2 (oid resource) = []"
    using assms by (auto dest: sem_acquire_ok simp: get_semaphore_fields)
  have below: "sem_count w2 sem \<noteq> SEM_VALUE_MAX"
    using assms(3) by (rule sem_acquire_below_max)
  then have below': "sem_count (clear_holder self ?ws) sem \<noteq> SEM_VALUE_MAX"
    by (simp add: clear_holder_def mark_as_deleted_def set_holder_def log_def)
  have eq: "lock tid self resource timeout body w =
           (Inl (TypeError (stale_message (uri resource))),
            sem_close sem (snd (sem_release sem (clear_holder self ?ws))))"
    using below'
    by (simp add: lock_acquire_succeeds [OF assms(1-3)] st busy_handler_def lock_finally_def
                  sem_release_below_max)
  have sub: "sublist (uri resource) (stale_message (uri resource))"
    unfolding stale_message_def by (rule sublist_appendI)
  have tr: "trace w2 = trace w @ [Opened (get_semaphore_name (uri self)) sem, Acquired sem]"
    and hd: "handles w2 = sem # handles w" and h1: "handles w1 = sem # handles w"
    using assms(2,3) by (auto dest: sem_acquire_ok simp: get_semaphore_fields)
  show ?thesis
    unfolding eq Let_def using sub below below'
    by (simp add: tr hd h1 sem_close_def sem_release_below_max clear_holder_def
                  mark_as_deleted_def set_holder_def log_def)
qed

theorem lock_stale_resource_witness:
  "locking_thread_id stale_world (oid the_base) \<noteq> Some 7
   \<and> fst (get_semaphore the_base stale_world) = Inr 0
   \<and> fst (sem_acquire (timeout_or_default None) 0 (snd (get_semaphore the_base stale_world)))
       = Inr ()
   \<and> state stale_world (oid the_base) = []
   \<and> fst (lock 7 the_base the_base None failing_body stale_world)
       = Inl (TypeError ''The resource <b/> no longer exists.'')
   \<and> marked_deleted (snd (lock 7 the_base the_base None failing_body stale_world)) = {1}
   \<and> sem_count (snd (lock 7 the_base the_base None failing_body stale_world)) 0 = 1"
proof -
  let ?w1 = "snd (get_semaphore the_base stale_world)"
  let ?w2 = "snd (sem_acquire (timeout_or_default None) 0 ?w1)"
  have h1: "locking_thread_id stale_world (oid the_base) \<noteq> Some 7"
    by (simp add: eval_defs)
  have h2: "get_semaphore the_base stale_world = (Inr 0, ?w1)"
    by (simp add: eval_defs)
  have h3: "sem_acquire (timeout_or_default None) 0 ?w1 = (Inr (), ?w2)"
    by (simp add: eval_defs)
  have h4: "state stale_world (oid the_base) = []"
    by (simp add: eval_defs)
  from lock_stale_resource [OF h1 h2 h3 h4, where body = failing_body]
  show ?thesis
    using h1 h4 by (simp add: eval_defs)
qed

section \<open>Reset\<close>




section \<open>The busy error\<close>

text \<open>
  Claim C6. Take a call of lock by a thread that is not the recorded holder, whose
  acquisition fails. Whatever the body is, it is not run: the call raises a \<open>BusyError\<close>
  whose message contains the URI of the locked resource. Where no holder is recorded the
  message is that of the code with \<open>Unknown\<close> for the thread; for a recorded holder it
  carries, in that place, a numeral that reads back as the holder's ident (thread idents
  are not 0; a holder 0 would be taken for none). Nothing but the open is logged, and
  neither the holder record nor any semaphore value has changed.
\<close>

theorem lock_busy_error:
  assumes "locking_thread_id w (oid self) \<noteq> Some tid"
      and "get_semaphore self w = (Inr sem, w1)"
      and "sem_acquire (timeout_or_default timeout) sem w1 = (Inl e, w2)"
  shows "lock tid self resource timeout body w =
           (Inl (BusyError (busy_message (uri self) (locking_thread_id w (oid self)))), w2)
       \<and> sublist (uri self) (busy_message (uri self) (locking_thread_id w (oid self)))
       \<and> (case locking_thread_id w (oid self) of
             None \<Rightarrow>
               busy_message (uri self) None
                 = ''The resource <'' @ uri self @ ''> is locked by thread Unknown.''
           | Some t \<Rightarrow>
               t \<noteq> 0 \<longrightarrow>
                 (\<exists>numeral. busy_message (uri self) (Some t)
                      = ''The resource <'' @ uri self @ ''> is locked by thread '' @ numeral @ ''.''
                    \<and> read_int numeral = Some t))
       \<and> trace w2 = trace w @ [Opened (get_semaphore_name (uri self)) sem]
       \<and> locking_thread_id w2 = locking_thread_id w \<and> sem_count w2 = sem_count w1"
proof -
  have s1: "sublist (uri self) (busy_message (uri self) h)" for h
    unfolding busy_message_def by (rule sublist_appendI)
  have s3: "case locking_thread_id w (oid self) of
             None \<Rightarrow>
               busy_message (uri self) None
                 = ''The resource <'' @ uri self @ ''> is locked by thread Unknown.''
           | Some t \<Rightarrow>
               t \<noteq> 0 \<longrightarrow>
                 (\<exists>numeral. busy_message (uri self) (Some t)
                      = ''The resource <'' @ uri self @ ''> is locked by thread '' @ numeral @ ''.''
                    \<and> read_int numeral = Some t)"
  proof (cases "locking_thread_id w (oid self)")
    case None
    then show ?thesis by (simp add: busy_message_def holder_text_def)
  next
    case (Some t)
    have "t \<noteq> 0 \<Longrightarrow> busy_message (uri self) (Some t)
            = ''The resource <'' @ uri self @ ''> is locked by thread '' @ str_int t @ ''.''
          \<and> read_int (str_int t) = Some t"
      by (simp add: busy_message_def holder_text_def read_int_str_int)
    with Some show ?thesis by auto
  qed
  from assms(2,3) have rest: "trace w2 = trace w @ [Opened (get_semaphore_name (uri self)) sem]
       \<and> locking_thread_id w2 = locking_thread_id w \<and> sem_count w2 = sem_count w1"
    by (auto dest!: sem_acquire_error simp: get_semaphore_fields)
  show ?thesis using lock_acquire_fails [OF assms] s1 s3 rest by simp
qed

theorem lock_busy_error_witness:
  "locking_thread_id held_world (oid the_base) \<noteq> Some 7
   \<and> fst (get_semaphore the_base held_world) = Inr 0
   \<and> fst (sem_acquire (timeout_or_default None) 0 (snd (get_semaphore the_base held_world)))
       = Inl (BusyError ''Semaphore is busy'')
   \<and> fst (lock 7 the_base the_base None skip_body held_world)
       = Inl (BusyError ''The resource <b/> is locked by thread 42.'')
   \<and> trace (snd (lock 7 the_base the_base None skip_body held_world)) = [Opened ''/b-'' 0]"
proof -
  let ?w1 = "snd (get_semaphore the_base held_world)"
  let ?w2 = "snd (sem_acquire (timeout_or_default None) 0 ?w1)"
  have h1: "locking_thread_id held_world (oid the_base) \<noteq> Some 7"
    by (simp add: eval_defs)
  have h2: "get_semaphore the_base held_world = (Inr 0, ?w1)"
    by (simp add: eval_defs)
  have h3: "sem_acquire (timeout_or_default None) 0 ?w1
              = (Inl (BusyError ''Semaphore is busy''), ?w2)"
    by (simp add: eval_defs)
  from lock_busy_error [OF h1 h2 h3, where resource = the_base and body = skip_body]
  have "fst (lock 7 the_base the_base None skip_body held_world)
          = Inl (BusyError (busy_message (uri the_base) (locking_thread_id held_world (oid the_base))))
        \<and> trace ?w2 = trace held_world @ [Opened (get_semaphore_name (uri the_base)) 0]
        \<and> snd (lock 7 the_base the_base None skip_body held_world) = ?w2"
    by simp
  then show ?thesis
    using h1 by (simp add: eval_defs)
qed

section \<open>Unlink on acknowledged deletion\<close>




section \<open>The mapping of identifiers to names\<close>

text \<open>
  Claim C8. For every identifier \<open>u\<close> the semaphore name is \<open>/\<close> followed by \<open>u\<close> with every
  \<open>/\<close> replaced by \<open>-\<close>; this is the mapping of the specification, and \<^verbatim>\<open>get_lock\<close> of
  base.py computes the same name. On identifiers that contain no \<open>-\<close> the mapping is
  injective: equal names come from equal identifiers.
\<close>

theorem semaphore_name_mapping:
  "get_semaphore_name u = CHR ''/'' # map (\<lambda>c. if c = CHR ''/'' then CHR ''-'' else c) u
   \<and> get_semaphore_name u = spec_lock_name u
   \<and> get_lock_sem_name u = get_semaphore_name u
   \<and> (CHR ''-'' \<notin> set u1 \<and> CHR ''-'' \<notin> set u2
        \<and> get_semaphore_name u1 = get_semaphore_name u2 \<longrightarrow> u1 = u2)"
  by (auto simp: get_semaphore_name_def get_lock_sem_name_def spec_lock_name_def str_replace_char
           dest: slash_subst_inj)

theorem semaphore_name_mapping_witness:
  "get_semaphore_name ''b/t1'' = ''/b-t1''
   \<and> CHR ''-'' \<notin> set ''b/t1''
   \<and> get_lock_sem_name ''b/t1'' = ''/b-t1''"
  using semaphore_name_mapping [of "''b/t1''" "''b/t1''" "''b/t1''"] by simp

section \<open>No existence check on the reentrant path\<close>

text \<open>
  Claim C9. For a resource whose state is empty: when the calling thread is the recorded
  holder, lock is the body and nothing else, so lock itself raises no error and marks
  nothing as deleted; when it is not the holder and the acquisition succeeds, the stale
  error is raised and the resource is marked. The check of existence is on the second
  path only.
\<close>

theorem reentrant_skips_existence_check:
  assumes "state w (oid resource) = []"
  shows "(locking_thread_id w (oid self) = Some tid \<longrightarrow>
            lock tid self resource timeout body w = body w)
       \<and> (locking_thread_id w (oid self) \<noteq> Some tid \<longrightarrow>
            (case get_semaphore self w of
               (Inl e, w1) \<Rightarrow> True
             | (Inr sem, w1) \<Rightarrow>
               (case sem_acquire (timeout_or_default timeout) sem w1 of
                  (Inl e, w2) \<Rightarrow> True
                | (Inr u, w2) \<Rightarrow>
                    fst (lock tid self resource timeout body w)
                      = Inl (TypeError (stale_message (uri resource)))
                    \<and> oid resource \<in> marked_deleted (snd (lock tid self resource timeout body w)))))"
proof (intro conjI impI)
  assume "locking_thread_id w (oid self) = Some tid"
  then show "lock tid self resource timeout body w = body w" by (rule lock_held_by_caller)
next
  assume nr: "locking_thread_id w (oid self) \<noteq> Some tid"
  obtain g w1 where g: "get_semaphore self w = (g, w1)" by (cases "get_semaphore self w")
  show "case get_semaphore self w of
               (Inl e, w1) \<Rightarrow> True
             | (Inr sem, w1) \<Rightarrow>
               (case sem_acquire (timeout_or_default timeout) sem w1 of
                  (Inl e, w2) \<Rightarrow> True
                | (Inr u, w2) \<Rightarrow>
                    fst (lock tid self resource timeout body w)
                      = Inl (TypeError (stale_message (uri resource)))
                    \<and> oid resource \<in> marked_deleted (snd (lock tid self resource timeout body w)))"
  proof (cases g)
    case (Inl e)
    then show ?thesis using g by simp
  next
    case (Inr sem)
    with g have g': "get_semaphore self w = (Inr sem, w1)" by simp
    obtain r w2 where a: "sem_acquire (timeout_or_default timeout) sem w1 = (r, w2)"
      by (cases "sem_acquire (timeout_or_default timeout) sem w1")
    show ?thesis
    proof (cases r)
      case (Inl e)
      then show ?thesis using g' a by simp
    next
      case (Inr u)
      with a have a': "sem_acquire (timeout_or_default timeout) sem w1 = (Inr u, w2)" by simp
      from lock_stale_core [OF nr g' a' assms, of body]
      show ?thesis
        using g' a' by (simp add: sem_close_def mark_as_deleted_def clear_holder_def
             sem_release_def set_holder_def log_def split: if_splits)
    qed
  qed
qed

theorem reentrant_skips_existence_check_witness:
  "state stale_held_world (oid the_base) = []
   \<and> locking_thread_id stale_held_world (oid the_base) = Some 42
   \<and> lock 42 the_base the_base None skip_body stale_held_world = (Inr (), stale_held_world)
   \<and> locking_thread_id stale_world (oid the_base) \<noteq> Some 42
   \<and> fst (lock 42 the_base the_base None skip_body stale_world)
       = Inl (TypeError ''The resource <b/> no longer exists.'')"
proof -
  have h1: "state stale_held_world (oid the_base) = []"
    and h2: "locking_thread_id stale_held_world (oid the_base) = Some 42"
    and h3: "state stale_world (oid the_base) = []"
    and h4: "locking_thread_id stale_world (oid the_base) \<noteq> Some 42"
    by (simp_all add: eval_defs)
  from reentrant_skips_existence_check [OF h1, where self = the_base and tid = 42
      and timeout = None and body = skip_body] h2
  have a: "lock 42 the_base the_base None skip_body stale_held_world = skip_body stale_held_world"
    by blast
  from reentrant_skips_existence_check [OF h3, where self = the_base and tid = 42
      and timeout = None and body = skip_body] h4
  have b: "fst (lock 42 the_base the_base None skip_body stale_world)
       = Inl (TypeError (stale_message (uri the_base)))"
    by (simp add: eval_defs)
  show ?thesis
    using a b h1 h2 h4 by (simp add: skip_body_def stale_message_def the_base_def)
qed

section \<open>The holder record and the value of the semaphore\<close>

text \<open>
  Claim C10, for a semaphore whose value is at most 1 when lock has opened it. A call of
  lock by a thread that is not the recorded holder leaves the holder record alone when
  the acquisition fails. When it succeeds, the value is 0 and the holder record is still
  as it was; the next effect assigns the record, and the body, or the stale check, starts
  with the record naming the caller and the value 0. After the section the record is
  cleared first and the semaphore is released next, so from the clearing on the record
  names nobody. What the body itself does to the record and to the value is its own; if
  it leaves the semaphore at its maximum, the release raises after the clearing.
\<close>

theorem holder_set_only_while_acquired:
  assumes "locking_thread_id w (oid self) \<noteq> Some tid"
      and "get_semaphore self w = (Inr sem, w1)"
      and "sem_count w1 sem \<le> 1"
  shows "(case sem_acquire (timeout_or_default timeout) sem w1 of
            (Inl e, w2) \<Rightarrow>
              locking_thread_id (snd (lock tid self resource timeout body w)) = locking_thread_id w
          | (Inr u, w2) \<Rightarrow>
              (let w3 = set_holder self tid w2;
                   section = (if state w2 (oid resource) = []
                              then (Inl (TypeError (stale_message (uri resource))),
                                    mark_as_deleted resource w3)
                              else body w3);
                   w4 = snd section;
                   w5 = clear_holder self w4;
                   w6 = snd (sem_release sem w5);
                   w7 = sem_close sem w6
               in lock tid self resource timeout body w
                    = busy_handler self (lock_finally self sem section)
                \<and> (sem_count w4 sem \<noteq> SEM_VALUE_MAX \<longrightarrow>
                      lock tid self resource timeout body w = busy_handler self (fst section, w7)
                      \<and> trace w6 = trace w5 @ [Released sem])
                \<and> (sem_count w4 sem = SEM_VALUE_MAX \<longrightarrow>
                      lock tid self resource timeout body w = (Inl OSError, w5))
                \<and> locking_thread_id w2 = locking_thread_id w \<and> sem_count w2 sem = 0
                \<and> locking_thread_id w3 (oid self) = Some tid \<and> sem_count w3 sem = 0
                \<and> trace w3 = trace w @ [Opened (get_semaphore_name (uri self)) sem,
                                         Acquired sem, HolderSet (oid self) tid]
                \<and> (state w2 (oid resource) = [] \<longrightarrow>
                      locking_thread_id w4 (oid self) = Some tid \<and> sem_count w4 sem = 0)
                \<and> locking_thread_id w5 (oid self) = None
                \<and> trace w5 = trace w4 @ [HolderCleared (oid self)]
                \<and> locking_thread_id w6 (oid self) = None
                \<and> locking_thread_id w7 (oid self) = None))"
proof -
  obtain r w2 where a: "sem_acquire (timeout_or_default timeout) sem w1 = (r, w2)"
    by (cases "sem_acquire (timeout_or_default timeout) sem w1")
  show ?thesis
  proof (cases r)
    case (Inl e)
    with a have a': "sem_acquire (timeout_or_default timeout) sem w1 = (Inl e, w2)" by simp
    have "locking_thread_id w2 = locking_thread_id w"
      using a' assms(2) by (auto dest!: sem_acquire_error simp: get_semaphore_fields)
    then show ?thesis
      by (simp add: a' lock_acquire_fails [OF assms(1,2) a'])
  next
    case (Inr u)
    with a have a': "sem_acquire (timeout_or_default timeout) sem w1 = (Inr u, w2)" by simp
    have c2: "sem_count w2 sem = 0"
    proof (cases "0 < sem_count w1 sem")
      case True
      from True assms(3) have "sem_count w1 sem = 1" by (rule sem_value_at_most_one)
      with a' True show ?thesis by (auto dest!: sem_acquire_ok)
    next
      case False
      with a' show ?thesis by (auto dest!: sem_acquire_ok simp: word_gt_0)
    qed
    from a' assms(2) have h2: "locking_thread_id w2 = locking_thread_id w"
      and t2: "trace w2 = trace w @ [Opened (get_semaphore_name (uri self)) sem, Acquired sem]"
      by (auto dest!: sem_acquire_ok simp: get_semaphore_fields)
    show ?thesis
      unfolding a' Let_def prod.case sum.case lock_acquire_succeeds [OF assms(1,2) a']
      by (simp add: c2 h2 t2 lock_finally_def set_holder_def clear_holder_def sem_release_def
                    sem_close_def mark_as_deleted_def log_def busy_handler_def
                    SEM_VALUE_MAX_minus_one)
  qed
qed

text \<open>The body reports the holder record and the value it finds on entry.\<close>

theorem holder_set_only_while_acquired_witness:
  "locking_thread_id (world_with_count 1) (oid the_base) \<noteq> Some 7
   \<and> fst (get_semaphore the_base (world_with_count 1)) = Inr 0
   \<and> sem_count (snd (get_semaphore the_base (world_with_count 1))) 0 \<le> 1
   \<and> lock 7 the_base the_base None (observe_body 1 0) (world_with_count 1)
       = (Inr (Some 7, 0),
          (world_with_count 1)\<lparr>trace := [Opened ''/b-'' 0, Acquired 0, HolderSet 1 7,
                                             HolderCleared 1, Released 0, Closed 0]\<rparr>)"
proof -
  let ?w1 = "snd (get_semaphore the_base (world_with_count 1))"
  have h1: "locking_thread_id (world_with_count 1) (oid the_base) \<noteq> Some 7"
    by (simp add: eval_defs)
  have h2: "get_semaphore the_base (world_with_count 1) = (Inr 0, ?w1)"
    by (simp add: eval_defs)
  have h3: "sem_count ?w1 0 \<le> 1"
    by (simp add: eval_defs)
  from holder_set_only_while_acquired [OF h1 h2 h3, where resource = the_base
      and body = "observe_body 1 0" and timeout = None]
  show ?thesis
    using h1 h3 by (simp add: eval_defs)
qed

text \<open>
  Without the bound on the value the record can name a thread while the semaphore is
  positive. The docstring of \<^verbatim>\<open>reset_lock\<close> describes how a semaphore comes to the value
  2; on entry to the body of the next lock, thread 7 is the recorded holder and the value
  is 1.
\<close>

theorem holder_set_with_positive_count:
  "fst (lock 7 the_base the_base None (observe_body 1 0) (world_with_count 2)) = Inr (Some 7, 1)"
  by (simp add: eval_defs)

end
